theory Spec2Isabelle
  imports Main "HOL-Library.Word"
begin

section \<open>Go values used by the execution and decoding subsystem\<close>

text \<open>
  The binaries are built for darwin/arm64, so Go's \<open>int\<close> is a 64-bit two's-complement
  integer; \<open>time.Duration\<close> is an \<open>int64\<close> of nanoseconds. A Go \<open>string\<close> is a sequence
  of bytes, here a \<open>char list\<close>.
\<close>

type_synonym go_int = "64 word"

subsection \<open>strconv.Itoa, strconv.Atoi and the \<open>%d\<close> verbs\<close>

definition digit_char :: "nat \<Rightarrow> char" where
  "digit_char d = char_of (48 + d)"

function nat_digits :: "nat \<Rightarrow> string" where
  "nat_digits n = (if n < 10 then [digit_char n] else nat_digits (n div 10) @ [digit_char (n mod 10)])"
  by pat_completeness auto
termination
  by (relation "measure id") auto

declare nat_digits.simps [simp del]

text \<open>\<open>strconv.Itoa(i)\<close>, also what \<open>fmt\<close> prints for \<open>%d\<close>.\<close>

definition fmt_d :: "int \<Rightarrow> string" where
  "fmt_d v = (if v < 0 then CHR ''-'' # nat_digits (nat (- v)) else nat_digits (nat v))"

definition Itoa :: "go_int \<Rightarrow> string" where
  "Itoa i = fmt_d (sint i)"

text \<open>\<open>%02d\<close>: zero padding to width 2 (a negative number already has width 2).\<close>

definition fmt_02d :: "int \<Rightarrow> string" where
  "fmt_02d v = (let s = fmt_d v in replicate (2 - length s) CHR ''0'' @ s)"

definition is_digit :: "char \<Rightarrow> bool" where
  "is_digit c = (48 \<le> (of_char c :: nat) \<and> (of_char c :: nat) \<le> 57)"

fun parse_digits :: "nat \<Rightarrow> string \<Rightarrow> nat option" where
  "parse_digits acc [] = Some acc"
| "parse_digits acc (c # cs) =
     (if is_digit c then parse_digits (acc * 10 + (of_char c - 48)) cs else None)"

text \<open>
  \<open>strconv.Atoi(s)\<close>: an optional sign, then one or more decimal digits, and the value
  must fit an \<open>int\<close>; \<open>None\<close> stands for the returned \<open>*NumError\<close> (syntax or range), which
  every caller here only tests against \<open>nil\<close>.
\<close>

definition Atoi :: "string \<Rightarrow> go_int option" where
  "Atoi s =
     (case s of
        [] \<Rightarrow> None
      | c # cs \<Rightarrow>
          (let neg = (c = CHR ''-'');
               ds = (if c = CHR ''-'' \<or> c = CHR ''+'' then cs else s)
           in if ds = [] then None
              else (case parse_digits 0 ds of
                      None \<Rightarrow> None
                    | Some n \<Rightarrow>
                        (let v = (if neg then - int n else int n)
                         in if - 9223372036854775808 \<le> v \<and> v < 9223372036854775808
                            then Some (word_of_int v) else None))))"

subsection \<open>strings.TrimSpace, strings.ToLower, strings.Split\<close>

text \<open>
  \<open>unicode.IsSpace\<close> holds for the ASCII bytes tab, line feed, vertical tab, form feed,
  carriage return and space, and for the code points U+0085, U+00A0, U+1680,
  U+2000..U+200A, U+2028, U+2029, U+202F, U+205F and U+3000. \<open>space1\<close>, \<open>space2\<close> and
  \<open>space3\<close> recognise the UTF-8 encoding of such a code point in one, two and three bytes
  (Go's decoder rejects over-long encodings, so each code point has exactly one).
\<close>

definition space1 :: "char \<Rightarrow> bool" where
  "space1 a = ((of_char a :: nat) \<in> {9, 10, 11, 12, 13, 32})"

definition space2 :: "char \<Rightarrow> char \<Rightarrow> bool" where
  "space2 a b = ((of_char a :: nat) = 194 \<and> (of_char b :: nat) \<in> {133, 160})"

definition space3 :: "char \<Rightarrow> char \<Rightarrow> char \<Rightarrow> bool" where
  "space3 a b c =
     (let x = (of_char a :: nat); y = (of_char b :: nat); z = (of_char c :: nat)
      in (x = 225 \<and> y = 154 \<and> z = 128) \<or>
         (x = 226 \<and> y = 128 \<and> ((128 \<le> z \<and> z \<le> 138) \<or> z \<in> {168, 169, 175})) \<or>
         (x = 226 \<and> y = 129 \<and> z = 159) \<or>
         (x = 227 \<and> y = 128 \<and> z = 128))"

text \<open>\<open>strings.TrimLeftFunc(s, unicode.IsSpace)\<close>: drop white-space runes from the front.\<close>

fun TrimLeft_space :: "string \<Rightarrow> string" where
  "TrimLeft_space (a # b # c # s) =
     (if space1 a then TrimLeft_space (b # c # s)
      else if space2 a b then TrimLeft_space (c # s)
      else if space3 a b c then TrimLeft_space s
      else a # b # c # s)"
| "TrimLeft_space [a, b] =
     (if space1 a then TrimLeft_space [b] else if space2 a b then [] else [a, b])"
| "TrimLeft_space [a] = (if space1 a then [] else [a])"
| "TrimLeft_space [] = []"

text \<open>
  \<open>strings.TrimRightFunc(s, unicode.IsSpace)\<close> on the reversed bytes: the last rune is
  found by \<open>utf8.DecodeLastRuneInString\<close>, which yields a white-space rune exactly when
  the string ends with its encoding.
\<close>

fun trim_rev_space :: "string \<Rightarrow> string" where
  "trim_rev_space (c # b # a # s) =
     (if space1 c then trim_rev_space (b # a # s)
      else if space2 b c then trim_rev_space (a # s)
      else if space3 a b c then trim_rev_space s
      else c # b # a # s)"
| "trim_rev_space [c, b] =
     (if space1 c then trim_rev_space [b] else if space2 b c then [] else [c, b])"
| "trim_rev_space [c] = (if space1 c then [] else [c])"
| "trim_rev_space [] = []"

definition TrimRight_space :: "string \<Rightarrow> string" where
  "TrimRight_space s = rev (trim_rev_space (rev s))"

definition TrimSpace :: "string \<Rightarrow> string" where
  "TrimSpace s = TrimRight_space (TrimLeft_space s)"

text \<open>
  \<open>strings.ToLower(s)\<close>: a string of ASCII bytes only is lower-cased byte by byte; any
  other string goes through \<open>strings.Map(unicode.ToLower, s)\<close>, whose case tables are a
  parameter of the model.
\<close>

definition ascii_lower :: "char \<Rightarrow> char" where
  "ascii_lower c =
     (if 65 \<le> (of_char c :: nat) \<and> (of_char c :: nat) \<le> 90 then char_of ((of_char c :: nat) + 32) else c)"

definition is_ascii :: "string \<Rightarrow> bool" where
  "is_ascii s = list_all (\<lambda>c. (of_char c :: nat) < 128) s"

definition ToLower :: "(string \<Rightarrow> string) \<Rightarrow> string \<Rightarrow> string" where
  "ToLower unicode_lower s = (if is_ascii s then map ascii_lower s else unicode_lower s)"

text \<open>\<open>strings.Split(s, sep)\<close> for a one-byte separator: never an empty list.\<close>

fun Split :: "string \<Rightarrow> char \<Rightarrow> string list" where
  "Split [] sep = [[]]"
| "Split (c # cs) sep =
     (if c = sep then [] # Split cs sep
      else (case Split cs sep of [] \<Rightarrow> [[c]] | p # ps \<Rightarrow> (c # p) # ps))"

section \<open>Value objects (domain/music/values.go)\<close>

datatype TrackID = TrackID (tid_value: string)

definition NewTrackID :: "string \<Rightarrow> TrackID" where
  "NewTrackID v = TrackID (TrimSpace v)"

definition TrackID_IsEmpty :: "TrackID \<Rightarrow> bool" where
  "TrackID_IsEmpty t = (tid_value t = [])"

record Duration =
  seconds :: go_int

definition NewDuration :: "go_int \<Rightarrow> Duration" where
  "NewDuration secs = \<lparr>seconds = (if secs <s 0 then 0 else secs)\<rparr>"

text \<open>
  \<open>NewDurationFromTime(d) = NewDuration(int(d.Seconds()))\<close>. \<open>d.Seconds()\<close> is a
  \<open>float64\<close>; the conversion of a \<open>time.Duration\<close> to whole seconds is the parameter
  \<open>whole_seconds\<close>.
\<close>

definition NewDurationFromTime :: "(go_int \<Rightarrow> go_int) \<Rightarrow> go_int \<Rightarrow> Duration" where
  "NewDurationFromTime whole_seconds d = NewDuration (whole_seconds d)"

definition Seconds :: "Duration \<Rightarrow> go_int" where
  "Seconds d = seconds d"

definition Duration_IsValid :: "Duration \<Rightarrow> bool" where
  "Duration_IsValid d = (0 \<le>s seconds d)"

definition Add :: "Duration \<Rightarrow> Duration \<Rightarrow> Duration" where
  "Add d other = NewDuration (seconds d + seconds other)"

definition Subtract :: "Duration \<Rightarrow> Duration \<Rightarrow> Duration" where
  "Subtract d other =
     (let result = seconds d - seconds other
      in NewDuration (if result <s 0 then 0 else result))"

text \<open>
  \<open>Duration.String\<close>. Past the guard the seconds are non-negative, where Go's truncating
  \<open>/\<close> and \<open>%\<close> agree with \<open>div\<close> and \<open>mod\<close>.
\<close>

definition Duration_String :: "Duration \<Rightarrow> string" where
  "Duration_String d =
     (let n = sint (seconds d)
      in if n < 0 then ''0:00''
         else (let hours = n div 3600; minutes = (n mod 3600) div 60; secs = n mod 60
               in if hours > 0 then fmt_d hours @ '':'' @ fmt_02d minutes @ '':'' @ fmt_02d secs
                  else fmt_d minutes @ '':'' @ fmt_02d secs))"

record Volume =
  level :: go_int

definition NewVolume :: "go_int \<Rightarrow> Volume" where
  "NewVolume lvl = \<lparr>level = (if lvl <s 0 then 0 else if 100 <s lvl then 100 else lvl)\<rparr>"


definition Volume_IsValid :: "Volume \<Rightarrow> bool" where
  "Volume_IsValid v = (0 \<le>s level v \<and> level v \<le>s 100)"

definition Volume_String :: "Volume \<Rightarrow> string" where
  "Volume_String v = Itoa (level v) @ ''%''"

datatype PlayerState =
  PlayerStateStopped | PlayerStatePlaying | PlayerStatePaused | PlayerStateBuffering

datatype RepeatMode = RepeatModeOff | RepeatModeAll | RepeatModeOne

section \<open>Domain errors (package music, errors.go)\<close>

datatype err_code =
    ErrTrackNotFound | ErrInvalidTrackID | ErrInvalidTrack
  | ErrPlaylistNotFound | ErrInvalidPlaylistID | ErrInvalidPlaylist
  | ErrPlaylistReadOnly | ErrTrackAlreadyInPlaylist
  | ErrPlayerNotAvailable | ErrInvalidPlayerState | ErrInvalidVolume
  | ErrInvalidPosition | ErrInvalidRepeatMode
  | ErrQueueEmpty | ErrInvalidQueuePosition
  | ErrLibraryNotAvailable | ErrSearchFailed | ErrInvalidSearchQuery
  | ErrOperationFailed | ErrTimeout | ErrPermissionDenied | ErrInvalidOperation

text \<open>Values stored in the context map of an error (\<open>interface{}\<close> in Go).\<close>

datatype ctx_value = StringValue string | IntValue go_int

text \<open>\<open>ctx.Err()\<close> of a done context.\<close>

datatype context_err = Canceled | DeadlineExceeded

text \<open>
  The \<open>error\<close> values that occur: a bare \<open>Err*\<close> variable, an \<open>*exec.ExitError\<close> with its
  exit code, a context error, any other error of the operating system (known by its text),
  and a \<open>*DomainError\<close>, whose \<open>Code\<close> is one of the \<open>Err*\<close> variables.
\<close>

datatype DomainError =
  DomainError (Code: err_code) (Message: string) (Cause: "go_error option")
    (Context: "string \<Rightarrow> ctx_value option")
and go_error =
    Sentinel err_code
  | ExitError go_int
  | ContextError context_err
  | OtherError string
  | Domain DomainError

definition NewDomainError :: "err_code \<Rightarrow> string \<Rightarrow> DomainError" where
  "NewDomainError code message = DomainError code message None Map.empty"

definition NewDomainErrorWithCause :: "err_code \<Rightarrow> string \<Rightarrow> go_error option \<Rightarrow> DomainError" where
  "NewDomainErrorWithCause code message cause = DomainError code message cause Map.empty"

definition WithContext :: "DomainError \<Rightarrow> string \<Rightarrow> ctx_value \<Rightarrow> DomainError" where
  "WithContext e key v = DomainError (Code e) (Message e) (Cause e) ((Context e)(key \<mapsto> v))"

definition GetContext :: "DomainError \<Rightarrow> string \<Rightarrow> ctx_value option" where
  "GetContext e key = Context e key"

definition DomainError_IsRetryable :: "DomainError \<Rightarrow> bool" where
  "DomainError_IsRetryable e =
     (Code e = ErrTimeout \<or> Code e = ErrPlayerNotAvailable \<or>
      Code e = ErrLibraryNotAvailable \<or> Code e = ErrOperationFailed)"

definition DomainError_IsPermanent :: "DomainError \<Rightarrow> bool" where
  "DomainError_IsPermanent e =
     (Code e = ErrPermissionDenied \<or> Code e = ErrInvalidTrackID \<or>
      Code e = ErrInvalidPlaylistID \<or> Code e = ErrInvalidVolume \<or>
      Code e = ErrInvalidPosition \<or> Code e = ErrInvalidSearchQuery \<or>
      Code e = ErrPlaylistReadOnly)"

text \<open>\<open>errors.Is(err, target)\<close> for an error that is not a \<open>*DomainError\<close>.\<close>

fun plain_Is :: "go_error \<Rightarrow> err_code \<Rightarrow> bool" where
  "plain_Is (Sentinel c) target = (c = target)"
| "plain_Is _ target = False"

text \<open>The package-level \<open>IsRetryable(err)\<close> and \<open>IsPermanent(err)\<close>.\<close>

fun IsRetryable :: "go_error \<Rightarrow> bool" where
  "IsRetryable (Domain e) = DomainError_IsRetryable e"
| "IsRetryable err =
     (plain_Is err ErrTimeout \<or> plain_Is err ErrPlayerNotAvailable \<or>
      plain_Is err ErrLibraryNotAvailable)"

fun IsPermanent :: "go_error \<Rightarrow> bool" where
  "IsPermanent (Domain e) = DomainError_IsPermanent e"
| "IsPermanent err =
     (plain_Is err ErrPermissionDenied \<or> plain_Is err ErrInvalidTrackID \<or>
      plain_Is err ErrInvalidPlaylistID)"

definition WrapOperationTimeout :: "string \<Rightarrow> Duration \<Rightarrow> go_error option \<Rightarrow> DomainError" where
  "WrapOperationTimeout operation timeout cause =
     WithContext
       (WithContext
          (NewDomainErrorWithCause ErrTimeout
             (''operation '' @ [CHR 0x27] @ operation @ [CHR 0x27] @ '' timed out after ''
                @ Duration_String timeout)
             cause)
          ''operation'' (StringValue operation))
       ''timeout_seconds'' (IntValue (Seconds timeout))"

section \<open>Entities (package music, entities.go)\<close>

record Track =
  ID :: TrackID
  Title :: string
  Artist :: string
  Album :: string
  Duration :: Duration

definition NewTrack :: "TrackID \<Rightarrow> string \<Rightarrow> string \<Rightarrow> string \<Rightarrow> Duration \<Rightarrow> go_error + Track" where
  "NewTrack tid title artist album duration =
     (if TrackID_IsEmpty tid then
        Inl (Domain (NewDomainError ErrInvalidTrackID ''track ID cannot be empty''))
      else if title = [] then
        Inl (Domain (NewDomainError ErrInvalidTrack ''track title cannot be empty''))
      else if artist = [] then
        Inl (Domain (NewDomainError ErrInvalidTrack ''track artist cannot be empty''))
      else if \<not> Duration_IsValid duration then
        Inl (Domain (NewDomainError ErrInvalidTrack ''track duration must be valid''))
      else Inr \<lparr>ID = tid, Title = title, Artist = artist, Album = album, Duration = duration\<rparr>)"

text \<open>\<open>LastUpdated\<close> is a \<open>time.Time\<close>; the instant read by \<open>time.Now()\<close> is an argument.\<close>

record Player =
  State :: PlayerState
  CurrentTrack :: "TrackID option"
  Position :: Duration
  Volume :: Volume
  Shuffle :: bool
  Repeat :: RepeatMode
  LastUpdated :: int

definition NewPlayer :: "int \<Rightarrow> Player" where
  "NewPlayer now =
     \<lparr>State = PlayerStateStopped, CurrentTrack = None, Position = NewDuration 0,
      Volume = NewVolume 50, Shuffle = False, Repeat = RepeatModeOff, LastUpdated = now\<rparr>"

section \<open>The state decoder (PlayerRepository.parsePlayerState, parseTrack)\<close>

text \<open>
  What the model takes from the Go runtime instead of computing it: the Unicode path of
  \<open>strings.ToLower\<close>, \<open>strconv.ParseFloat(s, 64)\<close> (\<open>None\<close> for an error), the conversion
  \<open>int(f)\<close> of a \<open>float64\<close>, and \<open>int(d.Seconds())\<close> of a \<open>time.Duration\<close>. The type
  \<open>'f\<close> stands for \<open>float64\<close>.
\<close>

record 'f runtime =
  unicode_lower :: "string \<Rightarrow> string"
  ParseFloat :: "string \<Rightarrow> 'f option"
  float_to_int :: "'f \<Rightarrow> go_int"
  whole_seconds :: "go_int \<Rightarrow> go_int"

definition decode_state :: "'f runtime \<Rightarrow> string \<Rightarrow> PlayerState" where
  "decode_state rt field =
     (let s = ToLower (unicode_lower rt) field
      in if s = ''stopped'' then PlayerStateStopped
         else if s = ''playing'' then PlayerStatePlaying
         else if s = ''paused'' then PlayerStatePaused
         else PlayerStateStopped)"

definition decode_position :: "'f runtime \<Rightarrow> string \<Rightarrow> Duration option" where
  "decode_position rt field =
     (if field = ''missing value'' \<or> field = [] then Some (NewDuration 0)
      else (case ParseFloat rt field of
              None \<Rightarrow> None
            | Some positionSeconds \<Rightarrow> Some (NewDuration (float_to_int rt positionSeconds))))"

definition decode_shuffle :: "'f runtime \<Rightarrow> string \<Rightarrow> bool" where
  "decode_shuffle rt field = (ToLower (unicode_lower rt) field = ''true'')"

definition decode_repeat :: "'f runtime \<Rightarrow> string \<Rightarrow> RepeatMode" where
  "decode_repeat rt field =
     (let s = ToLower (unicode_lower rt) field
      in if s = ''off'' then RepeatModeOff
         else if s = ''all'' then RepeatModeAll
         else if s = ''one'' then RepeatModeOne
         else RepeatModeOff)"

definition parsePlayerState :: "'f runtime \<Rightarrow> int \<Rightarrow> string \<Rightarrow> go_error + Player" where
  "parsePlayerState rt now output =
     (let parts = Split (TrimSpace output) CHR ''|''
      in if length parts \<noteq> 6 then
           Inl (Domain (NewDomainError ErrOperationFailed ''invalid player state format''))
         else
           (let state = decode_state rt (parts ! 0)
            in case Atoi (parts ! 1) of
                 None \<Rightarrow> Inl (Domain (NewDomainError ErrOperationFailed ''invalid volume format''))
               | Some volumeLevel \<Rightarrow>
                   (let volume = NewVolume volumeLevel
                    in case decode_position rt (parts ! 2) of
                         None \<Rightarrow>
                           Inl (Domain (NewDomainError ErrOperationFailed ''invalid position format''))
                       | Some position \<Rightarrow>
                           (let shuffle = decode_shuffle rt (parts ! 3);
                                repeat = decode_repeat rt (parts ! 4);
                                currentTrack =
                                  (if parts ! 5 \<noteq> [] then Some (NewTrackID (parts ! 5)) else None)
                            in Inr ((NewPlayer now)
                                 \<lparr>State := state, Volume := volume, Position := position,
                                  Shuffle := shuffle, Repeat := repeat,
                                  CurrentTrack := currentTrack\<rparr>)))))"

definition parseTrack :: "'f runtime \<Rightarrow> string \<Rightarrow> go_error + Track" where
  "parseTrack rt output =
     (let parts = Split (TrimSpace output) CHR ''|''
      in if length parts \<noteq> 5 then
           Inl (Domain (NewDomainError ErrOperationFailed ''invalid track format''))
         else
           (let trackID = NewTrackID (parts ! 0);
                title = parts ! 1; artist = parts ! 2; album = parts ! 3
            in case ParseFloat rt (parts ! 4) of
                 None \<Rightarrow>
                   Inl (Domain (NewDomainError ErrOperationFailed ''invalid track duration format''))
               | Some durationSeconds \<Rightarrow>
                   NewTrack trackID title artist album
                     (NewDuration (float_to_int rt durationSeconds))))"

section \<open>The executor (infrastructure/applescript/executor.go)\<close>

record ExecutorConfig =
  ExecPath :: string
  DefaultTimeout :: go_int
  MaxRetries :: go_int
  RetryDelay :: go_int

definition DefaultExecutorConfig :: ExecutorConfig where
  "DefaultExecutorConfig =
     \<lparr>ExecPath = ''maestro-exec'', DefaultTimeout = 10 * 1000000000, MaxRetries = 3,
      RetryDelay = 500 * 1000000\<rparr>"

record ExecuteResult =
  Output :: string
  Error :: "go_error option"
  Duration :: go_int
  RetryCount :: go_int

subsection \<open>What the operating system answers to one attempt\<close>

text \<open>
  One run of \<open>maestro-exec\<close>: the stdin pipe cannot be created, the process cannot be
  started, the script cannot be written, or \<open>cmd.Wait()\<close> returns with the captured
  standard output, standard error and its error (\<open>None\<close> for \<open>nil\<close>).
\<close>

datatype proc_outcome =
    StdinPipeFailed go_error
  | StartFailed go_error
  | WriteFailed go_error
  | Waited string string "go_error option"

text \<open>
  Everything one iteration of the retry loop observes: \<open>wait_ctx\<close> is \<open>Some e\<close> when the
  \<open>select\<close> before a retry receives from \<open>ctx.Done()\<close> (and \<open>ctx.Err()\<close> is \<open>e\<close>) and
  \<open>None\<close> when it receives from the timer; \<open>proc\<close> is the run of the process;
  \<open>exec_ctx_err\<close> and \<open>ctx_err_exec\<close> are \<open>execCtx.Err()\<close> and \<open>ctx.Err()\<close> read in
  \<open>executeOnce\<close> after \<open>Wait\<close>; \<open>exec_elapsed\<close> is \<open>time.Since\<close> read in \<open>executeOnce\<close>;
  \<open>ctx_err_after\<close> is \<open>ctx.Err()\<close> read by the loop after a failed attempt; \<open>since_start\<close>
  is \<open>time.Since(startTime)\<close> read where this iteration returns.
\<close>

record attempt_env =
  wait_ctx :: "context_err option"
  proc :: proc_outcome
  exec_ctx_err :: "context_err option"
  ctx_err_exec :: "context_err option"
  exec_elapsed :: go_int
  ctx_err_after :: "context_err option"
  since_start :: go_int

text \<open>
  The environment of one call: what each iteration observes, in order, and
  \<open>time.Since(startTime)\<close> read after the loop.
\<close>

record world =
  attempts :: "attempt_env list"
  final_since :: go_int

subsection \<open>executeOnce\<close>

definition exit_error :: "'f runtime \<Rightarrow> go_int \<Rightarrow> go_int \<Rightarrow> string \<Rightarrow> go_error \<Rightarrow> DomainError" where
  "exit_error rt timeout code stderrOutput err =
     (if code = 1 then
        NewDomainErrorWithCause ErrOperationFailed
          (''AppleScript execution failed: '' @ stderrOutput) (Some err)
      else if code = 2 then
        WrapOperationTimeout ''AppleScript execution''
          (NewDurationFromTime (whole_seconds rt) timeout) (Some err)
      else
        NewDomainErrorWithCause ErrOperationFailed
          (''AppleScript execution failed with exit code '' @ Itoa code @ '': '' @ stderrOutput)
          (Some err))"

definition wait_error :: "'f runtime \<Rightarrow> go_int \<Rightarrow> attempt_env \<Rightarrow> string \<Rightarrow> go_error \<Rightarrow> DomainError" where
  "wait_error rt timeout a stderrOutput err =
     (if exec_ctx_err a = Some DeadlineExceeded then
        WrapOperationTimeout ''AppleScript execution''
          (NewDurationFromTime (whole_seconds rt) timeout) (Some err)
      else (case ctx_err_exec a of
              Some ce \<Rightarrow>
                NewDomainErrorWithCause ErrTimeout ''context cancelled'' (Some (ContextError ce))
            | None \<Rightarrow>
                (case err of
                   ExitError code \<Rightarrow> exit_error rt timeout code stderrOutput err
                 | _ \<Rightarrow>
                     NewDomainErrorWithCause ErrOperationFailed
                       (''failed to execute AppleScript: '' @ stderrOutput) (Some err))))"

definition executeOnce :: "'f runtime \<Rightarrow> attempt_env \<Rightarrow> string \<Rightarrow> go_int \<Rightarrow> ExecuteResult" where
  "executeOnce rt a script timeout =
     (case proc a of
        StdinPipeFailed err \<Rightarrow>
          \<lparr>Output = [],
           Error = Some (Domain (NewDomainErrorWithCause ErrOperationFailed
                                   ''failed to create stdin pipe'' (Some err))),
           Duration = exec_elapsed a, RetryCount = 0\<rparr>
      | StartFailed err \<Rightarrow>
          \<lparr>Output = [],
           Error = Some (Domain (NewDomainErrorWithCause ErrOperationFailed
                                   ''failed to start maestro-exec'' (Some err))),
           Duration = exec_elapsed a, RetryCount = 0\<rparr>
      | WriteFailed writeErr \<Rightarrow>
          \<lparr>Output = [],
           Error = Some (Domain (NewDomainErrorWithCause ErrOperationFailed
                                   ''failed to write script to stdin'' (Some writeErr))),
           Duration = exec_elapsed a, RetryCount = 0\<rparr>
      | Waited out errout werr \<Rightarrow>
          (let result = \<lparr>Output = TrimSpace out, Error = None, Duration = exec_elapsed a,
                         RetryCount = 0\<rparr>
           in case werr of
                None \<Rightarrow> result
              | Some err \<Rightarrow>
                  result\<lparr>Error := Some (Domain (wait_error rt timeout a (TrimSpace errout) err))\<rparr>))"

subsection \<open>ExecuteWithTimeout\<close>

text \<open>
  The loop \<open>for attempt := 0; attempt <= e.config.MaxRetries; attempt++\<close>, one
  \<open>attempt_env\<close> per iteration. \<open>made\<close> counts the calls of \<open>executeOnce\<close>, which the
  function returns beside the result. \<open>None\<close>: the environment does not say what a further
  iteration observes.
\<close>

definition exhausted_result :: "ExecutorConfig \<Rightarrow> go_int \<Rightarrow> go_error option \<Rightarrow> ExecuteResult" where
  "exhausted_result cfg fin lastErr =
     \<lparr>Output = [],
      Error = Some (Domain (NewDomainErrorWithCause ErrOperationFailed
                (''AppleScript execution failed after '' @ Itoa (MaxRetries cfg + 1) @ '' attempts'')
                lastErr)),
      Duration = fin, RetryCount = MaxRetries cfg\<rparr>"

fun retry_loop ::
  "'f runtime \<Rightarrow> ExecutorConfig \<Rightarrow> string \<Rightarrow> go_int \<Rightarrow> go_int \<Rightarrow> go_int \<Rightarrow> go_error option \<Rightarrow> nat
     \<Rightarrow> attempt_env list \<Rightarrow> (ExecuteResult \<times> nat) option" where
  "retry_loop rt cfg script timeout fin attempt lastErr made [] =
     (if attempt \<le>s MaxRetries cfg then None
      else Some (exhausted_result cfg fin lastErr, made))"
| "retry_loop rt cfg script timeout fin attempt lastErr made (a # env) =
     (if attempt \<le>s MaxRetries cfg then
        (if 0 <s attempt \<and> wait_ctx a \<noteq> None then
           Some (\<lparr>Output = [],
                  Error = Some (Domain (NewDomainErrorWithCause ErrTimeout
                            ''context cancelled during retry'' (map_option ContextError (wait_ctx a)))),
                  Duration = since_start a, RetryCount = attempt\<rparr>, made)
         else
           (let result = (executeOnce rt a script timeout)\<lparr>RetryCount := attempt\<rparr>
            in case Error result of
                 None \<Rightarrow> Some (result\<lparr>Duration := since_start a\<rparr>, Suc made)
               | Some lastErr' \<Rightarrow>
                   if IsPermanent lastErr' then Some (result\<lparr>Duration := since_start a\<rparr>, Suc made)
                   else (case ctx_err_after a of
                           Some ce \<Rightarrow>
                             Some (result\<lparr>Error := Some (Domain (NewDomainErrorWithCause ErrTimeout
                                              ''context cancelled'' (Some (ContextError ce)))),
                                          Duration := since_start a\<rparr>, Suc made)
                         | None \<Rightarrow>
                             retry_loop rt cfg script timeout fin (attempt + 1) (Some lastErr')
                               (Suc made) env)))
      else Some (exhausted_result cfg fin lastErr, made))"

definition ExecuteWithTimeout ::
  "'f runtime \<Rightarrow> ExecutorConfig \<Rightarrow> world \<Rightarrow> string \<Rightarrow> go_int \<Rightarrow> (ExecuteResult \<times> nat) option" where
  "ExecuteWithTimeout rt cfg w script timeout =
     (let script' = TrimSpace script
      in if script' = [] then
           Some (\<lparr>Output = [],
                  Error = Some (Domain (NewDomainError ErrInvalidOperation
                                          ''AppleScript cannot be empty'')),
                  Duration = 0, RetryCount = 0\<rparr>, 0)
         else retry_loop rt cfg script' timeout (final_since w) 0 None 0 (attempts w))"

definition Execute :: "'f runtime \<Rightarrow> ExecutorConfig \<Rightarrow> world \<Rightarrow> string \<Rightarrow> (ExecuteResult \<times> nat) option" where
  "Execute rt cfg w script = ExecuteWithTimeout rt cfg w script (DefaultTimeout cfg)"

subsection \<open>LoadScript and ExecuteTemplate\<close>

text \<open>
  What the file system answers to \<open>LoadScript\<close>: the location of the source file is
  unknown, the file at the path cannot be read, or its content.
\<close>

datatype load_outcome = CallerUnknown | ReadFailed string go_error | Loaded string

definition LoadScript :: "load_outcome \<Rightarrow> go_error + string" where
  "LoadScript lo =
     (case lo of
        CallerUnknown \<Rightarrow>
          Inl (Domain (NewDomainError ErrOperationFailed ''unable to determine current file location''))
      | ReadFailed scriptPath err \<Rightarrow>
          Inl (Domain (NewDomainErrorWithCause ErrOperationFailed
                         (''failed to read script file '' @ scriptPath) (Some err)))
      | Loaded content \<Rightarrow> Inr content)"

text \<open>
  \<open>strings.ReplaceAll(s, old, new)\<close> for a non-empty \<open>old\<close>, given as its first byte \<open>k\<close>
  and the rest \<open>ks\<close>: the occurrences of \<open>old\<close> are replaced from left to right, without
  overlap.
\<close>

function ReplaceAll :: "string \<Rightarrow> char \<Rightarrow> string \<Rightarrow> string \<Rightarrow> string" where
  "ReplaceAll [] k ks new = []"
| "ReplaceAll (c # cs) k ks new =
     (if take (Suc (length ks)) (c # cs) = k # ks
      then new @ ReplaceAll (drop (length ks) cs) k ks new
      else c # ReplaceAll cs k ks new)"
  by pat_completeness auto
termination
  by (relation "measure (\<lambda>(s, k, ks, new). length s)") auto

text \<open>
  The loop over \<open>params\<close>, which lists the entries of the Go map in the order the \<open>range\<close>
  loop visits them, each value already rendered by \<open>%v\<close>. The placeholder of a key is
  \<open>{{key}}\<close>.
\<close>

fun substitute :: "string \<Rightarrow> (string \<times> string) list \<Rightarrow> string" where
  "substitute script [] = script"
| "substitute script ((key, replacement) # params) =
     substitute (ReplaceAll script CHR ''{'' (CHR ''{'' # key @ ''}}'') replacement) params"

definition ExecuteTemplate ::
  "'f runtime \<Rightarrow> ExecutorConfig \<Rightarrow> world \<Rightarrow> load_outcome \<Rightarrow> (string \<times> string) list
     \<Rightarrow> (ExecuteResult \<times> nat) option" where
  "ExecuteTemplate rt cfg w lo params =
     (case LoadScript lo of
        Inl err \<Rightarrow>
          Some (\<lparr>Output = [],
                 Error = Some (Domain (NewDomainErrorWithCause ErrOperationFailed
                                         ''failed to load script template'' (Some err))),
                 Duration = 0, RetryCount = 0\<rparr>, 0)
      | Inr script \<Rightarrow> Execute rt cfg w (substitute script params))"

section \<open>Environments for stating and instantiating the theorems\<close>

text \<open>
  An attempt fails with a retryable error and without cancellation: the \<open>select\<close> before
  it receives from the timer, \<open>executeOnce\<close> returns a retryable error, and the context
  is not done afterwards.
\<close>

definition fails_retryably :: "'f runtime \<Rightarrow> string \<Rightarrow> go_int \<Rightarrow> attempt_env \<Rightarrow> bool" where
  "fails_retryably rt script timeout a =
     (wait_ctx a = None \<and> ctx_err_after a = None \<and>
      (case Error (executeOnce rt a script timeout) of None \<Rightarrow> False | Some e \<Rightarrow> IsRetryable e))"

text \<open>A result carries no error, or an error with a code (a \<open>*DomainError\<close>).\<close>

definition classified :: "ExecuteResult \<Rightarrow> bool" where
  "classified r = (case Error r of None \<Rightarrow> True | Some (Domain e) \<Rightarrow> True | Some _ \<Rightarrow> False)"

text \<open>All readings of \<open>time.Since(startTime)\<close> that a call of the controller can take.\<close>

definition clock_readings :: "world \<Rightarrow> go_int list" where
  "clock_readings w = final_since w # map since_start (attempts w)"

text \<open>
  A runtime for the examples: floats are the integers, \<open>ParseFloat\<close> reads integer
  literals only, and the Unicode path of \<open>ToLower\<close> leaves the string as it is.
\<close>

definition example_runtime :: "int runtime" where
  "example_runtime =
     \<lparr>unicode_lower = (\<lambda>s. s),
      ParseFloat = (\<lambda>s. map_option sint (Atoi s)),
      float_to_int = word_of_int,
      whole_seconds = (\<lambda>d. word_of_int (sint d div 1000000000))\<rparr>"

text \<open>
  An attempt without timeout or cancellation in which the process prints \<open>out\<close> and
  \<open>errout\<close> and exits with \<open>code\<close>; the clock reads 1000 ns inside \<open>executeOnce\<close> and
  2000 ns since the start of the call.
\<close>

definition exited :: "go_int \<Rightarrow> string \<Rightarrow> string \<Rightarrow> attempt_env" where
  "exited code out errout =
     \<lparr>wait_ctx = None,
      proc = Waited out errout (if code = 0 then None else Some (ExitError code)),
      exec_ctx_err = None, ctx_err_exec = None, exec_elapsed = 1000,
      ctx_err_after = None, since_start = 2000\<rparr>"

section \<open>Decimal rendering and parsing\<close>

lemma is_digit_digit_char: "d < 10 \<Longrightarrow> is_digit (digit_char d)"
  by (simp add: is_digit_def digit_char_def)

lemma val_digit_char: "d < 10 \<Longrightarrow> of_char (digit_char d) - 48 = d"
  by (simp add: digit_char_def)

lemma parse_digits_append:
  "parse_digits acc (xs @ ys) =
     (case parse_digits acc xs of None \<Rightarrow> None | Some a \<Rightarrow> parse_digits a ys)"
  by (induction xs arbitrary: acc) auto

lemma parse_nat_digits: "parse_digits 0 (nat_digits n) = Some n"
proof (induction n rule: nat_digits.induct)
  case (1 n)
  show ?case
  proof (cases "n < 10")
    case True
    then show ?thesis
      by (subst nat_digits.simps) (simp add: is_digit_digit_char val_digit_char)
  next
    case False
    then show ?thesis using 1
      by (subst nat_digits.simps) (simp add: parse_digits_append is_digit_digit_char val_digit_char)
  qed
qed

lemma nat_digits_Cons: "\<exists>c cs. nat_digits n = c # cs \<and> is_digit c"
proof (induction n rule: nat_digits.induct)
  case (1 n)
  show ?case
  proof (cases "n < 10")
    case True
    then show ?thesis
      by (subst nat_digits.simps) (simp add: is_digit_digit_char)
  next
    case False
    with 1 obtain c cs where "nat_digits (n div 10) = c # cs" "is_digit c" by auto
    with False show ?thesis
      by (subst nat_digits.simps) simp
  qed
qed

lemma is_digit_not_sign: "is_digit c \<Longrightarrow> c \<noteq> CHR ''-'' \<and> c \<noteq> CHR ''+''"
  by (auto simp: is_digit_def)


section \<open>Durations\<close>

lemma sint_seconds_NewDuration: "sint (seconds (NewDuration s)) = max 0 (sint s)"
  by (simp add: NewDuration_def word_sless_alt max_def)

lemma sint_sub_nonneg:
  assumes "0 \<le> sint (a :: go_int)" "0 \<le> sint (b :: go_int)"
  shows "sint (a - b) = sint a - sint b"
proof -
  have "sint a < 2 ^ 63" "sint b < 2 ^ 63"
    using sint_lt [of a] sint_lt [of b] by simp_all
  with assms show ?thesis
    by (simp add: sint_word_ariths signed_take_bit_int_eq_self)
qed

lemma sint_Subtract:
  assumes "0 \<le> sint (seconds d)" "0 \<le> sint (seconds e)"
  shows "sint (seconds (Subtract d e)) = max 0 (sint (seconds d) - sint (seconds e))"
  using sint_sub_nonneg [OF assms]
  by (simp add: Subtract_def Let_def sint_seconds_NewDuration word_sless_alt)

text \<open>
  Claim C10. Every \<open>Duration\<close> that a constructor or an operation produces has
  non-negative seconds: \<open>NewDuration\<close> turns a negative argument into 0 instead of
  rejecting it, \<open>NewDurationFromTime\<close> and \<open>Add\<close> go through \<open>NewDuration\<close>, and
  \<open>Subtract\<close> of two valid durations is their difference cut off at 0.
\<close>

theorem duration_never_negative:
  "0 \<le> sint (Seconds (NewDuration s)) \<and>
   0 \<le> sint (Seconds (NewDurationFromTime conv t)) \<and>
   0 \<le> sint (Seconds (Add d e)) \<and>
   0 \<le> sint (Seconds (Subtract d e)) \<and>
   sint (Seconds (NewDuration s)) = max 0 (sint s) \<and>
   (0 \<le> sint (Seconds d) \<and> 0 \<le> sint (Seconds e) \<longrightarrow>
      sint (Seconds (Subtract d e)) = max 0 (sint (Seconds d) - sint (Seconds e)))"
proof -
  have "0 \<le> sint (Seconds (Subtract d e))"
    by (simp add: Seconds_def Subtract_def Let_def sint_seconds_NewDuration)
  moreover have "0 \<le> sint (Seconds (Add d e))"
    by (simp add: Seconds_def Add_def sint_seconds_NewDuration)
  moreover have "0 \<le> sint (Seconds (NewDurationFromTime conv t))"
    by (simp add: Seconds_def NewDurationFromTime_def sint_seconds_NewDuration)
  ultimately show ?thesis
    by (simp add: Seconds_def sint_seconds_NewDuration sint_Subtract)
qed

theorem duration_never_negative_witness:
  "sint (Seconds (NewDuration (- 5))) = 0 \<and>
   sint (Seconds (Subtract (NewDuration 10) (NewDuration 3))) = 7 \<and>
   sint (Seconds (Subtract (NewDuration 3) (NewDuration 10))) = 0"
proof -
  have h: "0 \<le> sint (Seconds (NewDuration 10)) \<and> 0 \<le> sint (Seconds (NewDuration 3))"
    by (simp add: Seconds_def sint_seconds_NewDuration)
  have v: "sint (Seconds (NewDuration 10)) = 10" "sint (Seconds (NewDuration 3)) = 3"
    by (simp_all add: Seconds_def sint_seconds_NewDuration)
  show ?thesis
    using duration_never_negative [of "- 5" id 0 "NewDuration 10" "NewDuration 3"]
      duration_never_negative [of "- 5" id 0 "NewDuration 3" "NewDuration 10"] h v
    by simp
qed

section \<open>Classification of domain errors\<close>

text \<open>
  Claim C3, as the code has it. No error is both retryable and permanent, and a not-found
  error is neither. Retryable are exactly the codes player-not-available,
  library-not-available, timeout and operation-failed; permanent are exactly
  invalid-track-id, invalid-playlist-id, invalid-volume, invalid-position,
  invalid-search-query, permission-denied and playlist-read-only. Every other code, among
  them invalid-repeat-mode, invalid-track, invalid-playlist, invalid-player-state,
  invalid-queue-position and invalid-operation, is neither.
\<close>

theorem error_classification:
  "\<not> (DomainError_IsRetryable e \<and> DomainError_IsPermanent e) \<and>
   \<not> (IsRetryable err \<and> IsPermanent err) \<and>
   \<not> DomainError_IsRetryable (NewDomainError ErrTrackNotFound m) \<and>
   \<not> DomainError_IsPermanent (NewDomainError ErrTrackNotFound m) \<and>
   DomainError_IsRetryable e =
     (Code e \<in> {ErrPlayerNotAvailable, ErrLibraryNotAvailable, ErrTimeout, ErrOperationFailed}) \<and>
   DomainError_IsPermanent e =
     (Code e \<in> {ErrInvalidTrackID, ErrInvalidPlaylistID, ErrInvalidVolume, ErrInvalidPosition,
                ErrInvalidSearchQuery, ErrPermissionDenied, ErrPlaylistReadOnly}) \<and>
   (\<not> DomainError_IsRetryable e \<and> \<not> DomainError_IsPermanent e) =
     (Code e \<in> {ErrTrackNotFound, ErrInvalidTrack, ErrPlaylistNotFound, ErrInvalidPlaylist,
                ErrTrackAlreadyInPlaylist, ErrInvalidPlayerState, ErrInvalidRepeatMode,
                ErrQueueEmpty, ErrInvalidQueuePosition, ErrSearchFailed, ErrInvalidOperation})"
proof -
  have a: "\<not> (DomainError_IsRetryable e \<and> DomainError_IsPermanent e)" for e
    by (auto simp: DomainError_IsRetryable_def DomainError_IsPermanent_def)
  have b: "\<not> (IsRetryable err \<and> IsPermanent err)"
    using a by (cases err rule: IsRetryable.cases) auto
  have c: "(\<not> DomainError_IsRetryable e \<and> \<not> DomainError_IsPermanent e) =
     (Code e \<in> {ErrTrackNotFound, ErrInvalidTrack, ErrPlaylistNotFound, ErrInvalidPlaylist,
                ErrTrackAlreadyInPlaylist, ErrInvalidPlayerState, ErrInvalidRepeatMode,
                ErrQueueEmpty, ErrInvalidQueuePosition, ErrSearchFailed, ErrInvalidOperation})"
    by (cases "Code e") (simp_all add: DomainError_IsRetryable_def DomainError_IsPermanent_def)
  have d: "DomainError_IsRetryable e =
     (Code e \<in> {ErrPlayerNotAvailable, ErrLibraryNotAvailable, ErrTimeout, ErrOperationFailed})"
    by (auto simp: DomainError_IsRetryable_def)
  have f: "DomainError_IsPermanent e =
     (Code e \<in> {ErrInvalidTrackID, ErrInvalidPlaylistID, ErrInvalidVolume, ErrInvalidPosition,
                ErrInvalidSearchQuery, ErrPermissionDenied, ErrPlaylistReadOnly})"
    by (auto simp: DomainError_IsPermanent_def)
  have g: "\<not> DomainError_IsRetryable (NewDomainError ErrTrackNotFound m) \<and>
   \<not> DomainError_IsPermanent (NewDomainError ErrTrackNotFound m)"
    by (simp add: DomainError_IsRetryable_def DomainError_IsPermanent_def NewDomainError_def)
  from a [of e] b c d f g show ?thesis by blast
qed

text \<open>
  Claim C3 as stated fails for the invalid-input codes that \<open>IsPermanent\<close> does not list:
  the error \<open>SetRepeat\<close> returns for an invalid repeat mode is not permanent.
\<close>

theorem invalid_repeat_mode_not_permanent:
  "\<not> DomainError_IsPermanent (NewDomainError ErrInvalidRepeatMode ''invalid repeat mode'') \<and>
   \<not> IsPermanent (Domain (NewDomainError ErrInvalidRepeatMode ''invalid repeat mode''))"
  by (simp add: DomainError_IsPermanent_def NewDomainError_def)

section \<open>The state decoder\<close>

text \<open>
  Claim C5, as the code has it. When the trimmed text does not split into exactly 6 fields
  (player state) or 5 fields (track), the decoder returns an operation-failed error and no
  player or track; the message of the error is the fixed text "invalid player state format"
  or "invalid track format", whatever the number of fields.
\<close>

theorem field_count_mismatch:
  "(length (Split (TrimSpace output) CHR ''|'') \<noteq> 6 \<longrightarrow>
      parsePlayerState rt now output =
        Inl (Domain (NewDomainError ErrOperationFailed ''invalid player state format''))) \<and>
   (length (Split (TrimSpace output) CHR ''|'') \<noteq> 5 \<longrightarrow>
      parseTrack rt output =
        Inl (Domain (NewDomainError ErrOperationFailed ''invalid track format'')))"
  by (simp add: parsePlayerState_def parseTrack_def Let_def)

lemma five_fields:
  "Split (TrimSpace ''playing|75|120|true|off'') CHR ''|'' =
     [''playing'', ''75'', ''120'', ''true'', ''off'']"
  by code_simp

lemma seven_fields:
  "Split (TrimSpace ''a|b|c|d|e|f|g'') CHR ''|'' = [''a'', ''b'', ''c'', ''d'', ''e'', ''f'', ''g'']"
  by code_simp

theorem field_count_mismatch_witness:
  "parsePlayerState example_runtime 0 ''a|b|c|d|e|f|g'' =
     Inl (Domain (NewDomainError ErrOperationFailed ''invalid player state format'')) \<and>
   parseTrack example_runtime ''a|b|c|d|e|f|g'' =
     Inl (Domain (NewDomainError ErrOperationFailed ''invalid track format''))"
  using field_count_mismatch [of "''a|b|c|d|e|f|g''" example_runtime 0]
  by (simp add: seven_fields)

text \<open>
  Claim C5 as stated fails: for a line of 5 fields the message is "invalid player state
  format", which holds no digit, so it names neither the expected nor the actual count.
\<close>

theorem field_count_message_counterexample:
  "parsePlayerState example_runtime 0 ''playing|75|120|true|off'' =
     Inl (Domain (DomainError ErrOperationFailed ''invalid player state format'' None Map.empty)) \<and>
   \<not> list_ex is_digit ''invalid player state format''"
proof -
  have "\<not> list_ex is_digit ''invalid player state format''"
    by code_simp
  then show ?thesis
    by (simp add: parsePlayerState_def Let_def five_fields NewDomainError_def)
qed

text \<open>The decoder on a line of six fields.\<close>

lemma parsePlayerState_fields:
  assumes "Split (TrimSpace output) CHR ''|'' = [f0, f1, f2, f3, f4, f5]"
  shows "parsePlayerState rt now output =
     (case Atoi f1 of
        None \<Rightarrow> Inl (Domain (NewDomainError ErrOperationFailed ''invalid volume format''))
      | Some volumeLevel \<Rightarrow>
          (case decode_position rt f2 of
             None \<Rightarrow> Inl (Domain (NewDomainError ErrOperationFailed ''invalid position format''))
           | Some position \<Rightarrow>
               Inr ((NewPlayer now)
                 \<lparr>State := decode_state rt f0, Volume := NewVolume volumeLevel,
                  Position := position, Shuffle := decode_shuffle rt f3,
                  Repeat := decode_repeat rt f4,
                  CurrentTrack := (if f5 \<noteq> [] then Some (NewTrackID f5) else None)\<rparr>)))"
  by (simp add: parsePlayerState_def Let_def assms split: option.splits)

text \<open>
  Claim C6, as the code has it. For every line of six fields whose volume and position
  fields decode, the decoder returns a player and no error, whatever the state and repeat
  fields hold: the state is playing or paused when the field lower-cased is "playing" or
  "paused" and stopped for every other text (so never buffering); the repeat mode is all or
  one when the field lower-cased is "all" or "one" and off for every other text.
\<close>

theorem state_and_repeat_decoding:
  assumes "Split (TrimSpace output) CHR ''|'' = [f0, f1, f2, f3, f4, f5]"
    and "Atoi f1 = Some v" and "decode_position rt f2 = Some pos"
  shows "\<exists>p. parsePlayerState rt now output = Inr p \<and>
     State p = (if ToLower (unicode_lower rt) f0 = ''playing'' then PlayerStatePlaying
                else if ToLower (unicode_lower rt) f0 = ''paused'' then PlayerStatePaused
                else PlayerStateStopped) \<and>
     Repeat p = (if ToLower (unicode_lower rt) f4 = ''all'' then RepeatModeAll
                 else if ToLower (unicode_lower rt) f4 = ''one'' then RepeatModeOne
                 else RepeatModeOff)"
  by (simp add: parsePlayerState_fields [OF assms(1)] assms(2,3) decode_state_def
      decode_repeat_def Let_def)

lemma sample_line_fields:
  "Split (TrimSpace ''PLAYING|75|120|true|One|42'') CHR ''|'' =
     [''PLAYING'', ''75'', ''120'', ''true'', ''One'', ''42'']"
  by code_simp

lemma Atoi_75: "Atoi ''75'' = Some 75"
  by code_simp

lemma position_120: "decode_position example_runtime ''120'' = Some (NewDuration 120)"
  by code_simp

theorem state_and_repeat_decoding_witness:
  "\<exists>p. parsePlayerState example_runtime 0 ''PLAYING|75|120|true|One|42'' = Inr p \<and>
     State p = PlayerStatePlaying \<and> Repeat p = RepeatModeOne"
proof -
  have l: "ToLower (unicode_lower example_runtime) ''PLAYING'' = ''playing''"
      "ToLower (unicode_lower example_runtime) ''One'' = ''one''"
    by code_simp+
  show ?thesis
    using state_and_repeat_decoding [OF sample_line_fields Atoi_75 position_120, of 0]
    by (simp add: l)
qed

lemma buffering_fields:
  "Split (TrimSpace ''buffering|50|0|false|off|'') CHR ''|'' =
     [''buffering'', ''50'', ''0'', ''false'', ''off'', [] ]"
  by code_simp

text \<open>
  Claim C6 as stated fails for the fourth member of the enumeration: the decoder has no
  case for "buffering", which decodes to stopped.
\<close>

theorem buffering_decodes_to_stopped:
  "map_sum id State (parsePlayerState example_runtime 0 ''buffering|50|0|false|off|'') =
     Inr PlayerStateStopped"
proof -
  have a: "Atoi ''50'' = Some 50" by code_simp
  have b: "decode_position example_runtime ''0'' = Some (NewDuration 0)" by code_simp
  have c: "decode_state example_runtime ''buffering'' = PlayerStateStopped" by code_simp
  show ?thesis
    by (simp add: parsePlayerState_fields [OF buffering_fields] a b c)
qed

text \<open>
  Claim C9. On a line of six fields the shuffle field never makes the decoder fail: an error
  comes from the volume or the position field only, and a decoded player has shuffle on
  exactly when the field lower-cased by \<open>strings.ToLower\<close> is "true" (for a field of ASCII
  bytes: when it equals "true" up to the case of its letters); any other text gives false.
\<close>

theorem shuffle_decoding:
  assumes "Split (TrimSpace output) CHR ''|'' = [f0, f1, f2, f3, f4, f5]"
  shows "(case parsePlayerState rt now output of
            Inr p \<Rightarrow> Shuffle p = (ToLower (unicode_lower rt) f3 = ''true'') \<and>
                     (is_ascii f3 \<longrightarrow> Shuffle p = (map ascii_lower f3 = ''true''))
          | Inl e \<Rightarrow> Atoi f1 = None \<or> decode_position rt f2 = None)"
  by (simp add: parsePlayerState_fields [OF assms] decode_shuffle_def ToLower_def
      split: option.splits)

lemma garbage_fields:
  "Split (TrimSpace ''playing|75|120|yes please|off|42'') CHR ''|'' =
     [''playing'', ''75'', ''120'', ''yes please'', ''off'', ''42'']"
  by code_simp

lemma upper_fields:
  "Split (TrimSpace ''playing|75|120|TRUE|off|42'') CHR ''|'' =
     [''playing'', ''75'', ''120'', ''TRUE'', ''off'', ''42'']"
  by code_simp

theorem shuffle_decoding_witness:
  "map_sum id Shuffle (parsePlayerState example_runtime 0 ''playing|75|120|TRUE|off|42'') = Inr True \<and>
   map_sum id Shuffle (parsePlayerState example_runtime 0 ''playing|75|120|yes please|off|42'') = Inr False"
proof -
  have l: "ToLower (unicode_lower example_runtime) ''TRUE'' = ''true''"
      "ToLower (unicode_lower example_runtime) ''yes please'' \<noteq> ''true''"
    by code_simp+
  show ?thesis
    using shuffle_decoding [OF upper_fields, of example_runtime 0]
      shuffle_decoding [OF garbage_fields, of example_runtime 0]
    by (simp add: parsePlayerState_fields [OF upper_fields]
        parsePlayerState_fields [OF garbage_fields] Atoi_75 position_120 l)
qed

section \<open>Volumes through the decoder\<close>






text \<open>
  The per cent sign of \<open>Volume.String\<close> is not part of the wire format: a line whose volume
  field is the whole display form is rejected by the decoder.
\<close>

lemma Atoi_Itoa_percent: "Atoi (Itoa l @ ''%'') = None"
proof -
  have nd: "\<not> is_digit CHR ''%''" by (simp add: is_digit_def)
  have p: "parse_digits 0 (nat_digits n @ ''%'') = None" for n
    by (simp add: parse_digits_append parse_nat_digits nd)
  show ?thesis
  proof (cases "sint l < 0")
    case True
    then show ?thesis
      by (simp add: Atoi_def Itoa_def fmt_d_def p)
  next
    case False
    obtain c cs where cs: "nat_digits (nat (sint l)) = c # cs" "is_digit c"
      using nat_digits_Cons by blast
    have "parse_digits 0 (c # cs @ ''%'') = None"
      using p [of "nat (sint l)"] cs(1) by simp
    with False is_digit_not_sign [OF cs(2)] show ?thesis
      by (simp add: Atoi_def Itoa_def fmt_d_def cs(1) del: parse_digits.simps)
  qed
qed

lemma Volume_String_rejected:
  assumes "Split (TrimSpace output) CHR ''|'' = [f0, Volume_String vol, f2, f3, f4, f5]"
  shows "parsePlayerState rt now output =
     Inl (Domain (NewDomainError ErrOperationFailed ''invalid volume format''))"
  by (simp add: parsePlayerState_fields [OF assms] Volume_String_def Atoi_Itoa_percent)

section \<open>One execution attempt\<close>

text \<open>
  Claim C4, as the code has it. When \<open>Wait\<close> returns an exit error and neither the deadline
  of the attempt nor the caller's context is done, the error of the attempt wraps the exit
  error and its category follows the exit code: 2 gives a timeout error (whose context map
  holds the operation name and the timeout in seconds); 1 gives an operation-failed error
  whose message ends with the trimmed standard-error text; any other code gives an
  operation-failed error whose message holds the exit code in decimal and the trimmed
  standard-error text. For the codes other than 2 the context map is empty: the exit code
  is recorded in the message only.
\<close>

theorem exit_code_classification:
  assumes "proc a = Waited out errout (Some (ExitError code))"
    and "exec_ctx_err a \<noteq> Some DeadlineExceeded" and "ctx_err_exec a = None"
  shows "\<exists>e. Error (executeOnce rt a script timeout) = Some (Domain e) \<and>
     Cause e = Some (ExitError code) \<and>
     (code = 2 \<longrightarrow> Code e = ErrTimeout \<and>
        GetContext e ''operation'' = Some (StringValue ''AppleScript execution'') \<and>
        GetContext e ''timeout_seconds'' =
          Some (IntValue (Seconds (NewDurationFromTime (whole_seconds rt) timeout)))) \<and>
     (code = 1 \<longrightarrow> Code e = ErrOperationFailed \<and>
        Message e = ''AppleScript execution failed: '' @ TrimSpace errout \<and>
        Context e = Map.empty) \<and>
     (code \<noteq> 1 \<and> code \<noteq> 2 \<longrightarrow> Code e = ErrOperationFailed \<and>
        Message e = ''AppleScript execution failed with exit code '' @ Itoa code @ '': ''
                      @ TrimSpace errout \<and>
        Context e = Map.empty)"
  using assms
  by (simp add: executeOnce_def wait_error_def exit_error_def Let_def GetContext_def
      NewDomainErrorWithCause_def WrapOperationTimeout_def WithContext_def)

theorem exit_code_classification_witness:
  "\<exists>e. Error (executeOnce example_runtime (exited 2 [] ''slow'') ''beep'' 5000000000) = Some (Domain e) \<and>
     Code e = ErrTimeout"
proof -
  have p: "proc (exited 2 [] ''slow'') = Waited [] ''slow'' (Some (ExitError 2))"
    by (simp add: exited_def)
  have c: "exec_ctx_err (exited 2 [] ''slow'') \<noteq> Some DeadlineExceeded"
      "ctx_err_exec (exited 2 [] ''slow'') = None"
    by (simp_all add: exited_def)
  show ?thesis
    using exit_code_classification [OF p c, of example_runtime "''beep''" 5000000000]
    by auto
qed

text \<open>
  Claim C4 as stated fails for the other exit codes: with exit code 3 the error has the
  code in its message and an empty context map.
\<close>

theorem exit_code_not_in_context:
  "Error (executeOnce example_runtime (exited 3 [] ''boom'') ''beep'' 5000000000) =
     Some (Domain (DomainError ErrOperationFailed
       ''AppleScript execution failed with exit code 3: boom'' (Some (ExitError 3)) Map.empty))"
proof -
  have i: "Itoa 3 = ''3''" by code_simp
  have t: "TrimSpace ''boom'' = ''boom''" by code_simp
  show ?thesis
    by (simp add: executeOnce_def wait_error_def exit_error_def exited_def Let_def
        NewDomainErrorWithCause_def i t)
qed

section \<open>The retry loop\<close>

lemma retryable_not_permanent: "IsRetryable err \<Longrightarrow> \<not> IsPermanent err"
  by (cases err rule: IsRetryable.cases)
     (auto simp: DomainError_IsRetryable_def DomainError_IsPermanent_def)

lemma sint_succ:
  assumes "sint (k :: go_int) < sint (m :: go_int)"
  shows "sint (k + 1) = sint k + 1"
proof -
  have "sint m < 2 ^ 63" "- (2 ^ 63) \<le> sint k"
    using sint_lt [of m] sint_ge [of k] by simp_all
  with assms show ?thesis
    by (simp add: sint_word_ariths signed_take_bit_int_eq_self)
qed

lemma sint_of_nat_small:
  assumes "int n \<le> sint (m :: go_int)"
  shows "sint (word_of_nat n :: go_int) = int n"
proof -
  have "sint m < 2 ^ 63" using sint_lt [of m] by simp
  with assms have "int n < 2 ^ 63" by linarith
  then show ?thesis
    by (simp add: signed_of_nat signed_take_bit_int_eq_self)
qed

lemma retry_loop_exhausted:
  "\<not> attempt \<le>s MaxRetries cfg \<Longrightarrow>
   retry_loop rt cfg script timeout fin attempt lastErr made env =
     Some (exhausted_result cfg fin lastErr, made)"
  by (cases env) simp_all

lemma retry_loop_failure:
  assumes "fails_retryably rt script timeout a" and "attempt \<le>s MaxRetries cfg"
  shows "retry_loop rt cfg script timeout fin attempt lastErr made (a # env) =
     retry_loop rt cfg script timeout fin (attempt + 1)
       (Error (executeOnce rt a script timeout)) (Suc made) env"
  using assms
  by (auto simp: fails_retryably_def Let_def retryable_not_permanent split: option.splits)

lemma retry_loop_success:
  assumes "attempt \<le>s MaxRetries cfg" and "wait_ctx a = None"
    and "Error (executeOnce rt a script timeout) = None"
  shows "retry_loop rt cfg script timeout fin attempt lastErr made (a # env) =
     Some ((executeOnce rt a script timeout)\<lparr>RetryCount := attempt, Duration := since_start a\<rparr>,
           Suc made)"
  using assms by (simp add: Let_def)

lemma retry_loop_wait_cancelled:
  assumes "attempt \<le>s MaxRetries cfg" and "0 <s attempt" and "wait_ctx a = Some ce"
  shows "retry_loop rt cfg script timeout fin attempt lastErr made (a # env) =
     Some (\<lparr>Output = [],
            Error = Some (Domain (NewDomainErrorWithCause ErrTimeout
                      ''context cancelled during retry'' (Some (ContextError ce)))),
            Duration = since_start a, RetryCount = attempt\<rparr>, made)"
  using assms by simp

lemma retry_loop_attempt:
  assumes "attempt \<le>s MaxRetries cfg" and "\<not> (0 <s attempt \<and> wait_ctx a \<noteq> None)"
  shows "retry_loop rt cfg script timeout fin attempt lastErr made (a # env) =
     (case Error (executeOnce rt a script timeout) of
        None \<Rightarrow>
          Some ((executeOnce rt a script timeout)
                  \<lparr>RetryCount := attempt, Duration := since_start a\<rparr>, Suc made)
      | Some e \<Rightarrow>
          if IsPermanent e then
            Some ((executeOnce rt a script timeout)
                    \<lparr>RetryCount := attempt, Duration := since_start a\<rparr>, Suc made)
          else (case ctx_err_after a of
                  Some ce \<Rightarrow>
                    Some ((executeOnce rt a script timeout)
                            \<lparr>RetryCount := attempt,
                             Error := Some (Domain (NewDomainErrorWithCause ErrTimeout
                                        ''context cancelled'' (Some (ContextError ce)))),
                             Duration := since_start a\<rparr>, Suc made)
                | None \<Rightarrow>
                    retry_loop rt cfg script timeout fin (attempt + 1) (Some e) (Suc made) env))"
  using assms by (auto simp: Let_def split: option.splits)

declare retry_loop.simps [simp del]

lemma retry_loop_failures:
  assumes "list_all (fails_retryably rt script timeout) pre"
    and "sint attempt + int (length pre) \<le> sint (MaxRetries cfg) + 1"
  shows "retry_loop rt cfg script timeout fin attempt lastErr made (pre @ env) =
     retry_loop rt cfg script timeout fin (attempt + word_of_nat (length pre))
       (if pre = [] then lastErr else Error (executeOnce rt (last pre) script timeout))
       (made + length pre) env"
  using assms
proof (induction pre arbitrary: attempt lastErr made)
  case Nil
  then show ?case by simp
next
  case (Cons a pre)
  from Cons.prems have f: "fails_retryably rt script timeout a"
    and fs: "list_all (fails_retryably rt script timeout) pre" by simp_all
  from Cons.prems(2) have le: "attempt \<le>s MaxRetries cfg"
    by (simp add: word_sle_eq)
  note step = retry_loop_failure [OF f le]
  show ?case
  proof (cases "pre = []")
    case True
    then show ?thesis by (simp add: step)
  next
    case False
    then have "0 < int (length pre)" by simp
    moreover have "int (length (a # pre)) = int (length pre) + 1" by simp
    ultimately have lt: "sint attempt < sint (MaxRetries cfg)"
      using Cons.prems(2) by linarith
    have "sint (attempt + 1) + int (length pre) \<le> sint (MaxRetries cfg) + 1"
      using Cons.prems(2) by (simp add: sint_succ [OF lt])
    from Cons.IH [OF fs this] False show ?thesis
      by (simp add: step add.assoc)
  qed
qed

text \<open>
  Claim C1, as the code has it. For every \<open>n\<close> from 1 to \<open>MaxRetries + 1\<close>: if the first
  \<open>n - 1\<close> attempts fail with a retryable error (and no cancellation) and attempt \<open>n\<close>
  succeeds, then \<open>ExecuteWithTimeout\<close> returns the result of attempt \<open>n\<close> without error,
  after exactly \<open>n\<close> calls of \<open>executeOnce\<close>, whatever the environment would answer to
  further attempts; its \<open>RetryCount\<close> is \<open>n - 1\<close>, the number of retries.
\<close>

theorem success_after_retries:
  assumes "TrimSpace script \<noteq> []"
    and "1 \<le> n" and "int n \<le> sint (MaxRetries cfg) + 1"
    and "length pre = n - 1"
    and "list_all (fails_retryably rt (TrimSpace script) timeout) pre"
    and "wait_ctx a = None"
    and "Error (executeOnce rt a (TrimSpace script) timeout) = None"
  shows "\<exists>r. ExecuteWithTimeout rt cfg \<lparr>attempts = pre @ a # rest, final_since = fin\<rparr>
            script timeout = Some (r, n) \<and>
     Error r = None \<and> RetryCount r = word_of_nat (n - 1) \<and>
     Output r = Output (executeOnce rt a (TrimSpace script) timeout) \<and>
     Duration r = since_start a"
proof -
  have b: "sint (0 :: go_int) + int (length pre) \<le> sint (MaxRetries cfg) + 1"
    using assms(2,3,4) by simp
  have "int (n - 1) \<le> sint (MaxRetries cfg)"
    using assms(2,3) by linarith
  then have s: "sint (word_of_nat (n - 1) :: go_int) = int (n - 1)"
    by (rule sint_of_nat_small)
  have le: "(word_of_nat (n - 1) :: go_int) \<le>s MaxRetries cfg"
    unfolding word_sle_eq s using assms(2,3) by linarith
  have m: "Suc (0 + length pre) = n" using assms(2,4) by simp
  let ?s = "TrimSpace script"
  let ?last = "if pre = [] then None else Error (executeOnce rt (last pre) ?s timeout)"
  have "ExecuteWithTimeout rt cfg \<lparr>attempts = pre @ a # rest, final_since = fin\<rparr> script timeout =
      retry_loop rt cfg ?s timeout fin 0 None 0 (pre @ a # rest)"
    using assms(1) by (simp add: ExecuteWithTimeout_def Let_def)
  also have "\<dots> = retry_loop rt cfg ?s timeout fin (0 + word_of_nat (length pre)) ?last
      (0 + length pre) (a # rest)"
    by (rule retry_loop_failures [OF assms(5) b])
  also have "\<dots> = Some ((executeOnce rt a ?s timeout)
      \<lparr>RetryCount := 0 + word_of_nat (length pre), Duration := since_start a\<rparr>, Suc (0 + length pre))"
    by (rule retry_loop_success) (simp_all only: assms(4,6,7) le add_0)
  finally show ?thesis
    by (simp only: m) (simp add: assms(4,7))
qed



lemma sample_failure: "fails_retryably example_runtime script timeout (exited 1 [] ''boom'')"
  by (simp add: fails_retryably_def executeOnce_def wait_error_def exit_error_def exited_def
      Let_def NewDomainErrorWithCause_def DomainError_IsRetryable_def)

lemma sample_success:
  "executeOnce example_runtime (exited 0 ''ok'' []) script timeout =
     \<lparr>Output = ''ok'', Error = None, Duration = 1000, RetryCount = 0\<rparr>"
proof -
  have "TrimSpace ''ok'' = ''ok''" by code_simp
  then show ?thesis by (simp add: executeOnce_def exited_def)
qed

lemma TrimSpace_beep: "TrimSpace ''beep'' = ''beep''"
  by code_simp

theorem success_after_retries_witness:
  "\<exists>r. ExecuteWithTimeout example_runtime DefaultExecutorConfig
          \<lparr>attempts = [exited 1 [] ''boom'', exited 0 ''ok'' []], final_since = 3000\<rparr>
          ''beep'' 5000000000 = Some (r, 2) \<and>
     Error r = None \<and> RetryCount r = 1 \<and> Output r = ''ok''"
proof -
  have h: "TrimSpace ''beep'' \<noteq> []" "1 \<le> (2::nat)"
      "int 2 \<le> sint (MaxRetries DefaultExecutorConfig) + 1"
      "length [exited 1 [] ''boom''] = 2 - 1"
      "list_all (fails_retryably example_runtime (TrimSpace ''beep'') 5000000000) [exited 1 [] ''boom'']"
      "wait_ctx (exited 0 ''ok'' []) = None"
      "Error (executeOnce example_runtime (exited 0 ''ok'' []) (TrimSpace ''beep'') 5000000000) = None"
    by (simp_all add: TrimSpace_beep DefaultExecutorConfig_def sample_failure sample_success)
       (simp add: exited_def)
  show ?thesis
    using success_after_retries [OF h, of "[]" 3000]
    by (auto simp: sample_success)
qed

text \<open>
  Claim C1 as stated fails at \<open>n = 1\<close>: when the first attempt succeeds, one attempt has
  been made and the reported count is 0.
\<close>

theorem first_attempt_success_counts_zero:
  "map_option (RetryCount \<circ> fst)
     (ExecuteWithTimeout example_runtime DefaultExecutorConfig
        \<lparr>attempts = [exited 0 ''ok'' []], final_since = 3000\<rparr> ''beep'' 5000000000) = Some 0 \<and>
   map_option snd
     (ExecuteWithTimeout example_runtime DefaultExecutorConfig
        \<lparr>attempts = [exited 0 ''ok'' []], final_since = 3000\<rparr> ''beep'' 5000000000) = Some 1"
proof -
  have le: "(0 :: go_int) \<le>s MaxRetries DefaultExecutorConfig"
    by (simp add: DefaultExecutorConfig_def word_sle_eq)
  have w: "wait_ctx (exited 0 ''ok'' []) = None"
    by (simp add: exited_def)
  have e: "Error (executeOnce example_runtime (exited 0 ''ok'' []) ''beep'' 5000000000) = None"
    by (simp add: sample_success)
  show ?thesis
    by (simp add: ExecuteWithTimeout_def TrimSpace_beep retry_loop_success [OF le w e]
        sample_success)
qed


lemma executeOnce_classified: "classified (executeOnce rt a script timeout)"
  by (simp add: classified_def executeOnce_def Let_def split: proc_outcome.splits option.splits)

lemma executeOnce_success:
  "Error (executeOnce rt a script timeout) = None \<Longrightarrow>
   \<exists>out errout. proc a = Waited out errout None \<and>
      Output (executeOnce rt a script timeout) = TrimSpace out"
  by (auto simp: executeOnce_def Let_def split: proc_outcome.splits option.splits)

lemma classified_updates:
  "classified (r\<lparr>RetryCount := n\<rparr>) = classified r"
  "classified (r\<lparr>Duration := d\<rparr>) = classified r"
  "classified (r\<lparr>Error := Some (Domain e)\<rparr>)"
  by (simp_all add: classified_def)

lemma retry_loop_shape:
  assumes "retry_loop rt cfg script timeout fin attempt lastErr made env = Some (r, m)"
  shows "classified r \<and> Duration r \<in> set (fin # map since_start env) \<and>
     (Error r = None \<longrightarrow>
        (\<exists>a \<in> set env. \<exists>out errout. proc a = Waited out errout None \<and> Output r = TrimSpace out))"
  using assms
proof (induction env arbitrary: attempt lastErr made)
  case Nil
  then show ?case
    by (auto simp: retry_loop.simps exhausted_result_def classified_def split: if_splits)
next
  case (Cons a env)
  let ?once = "executeOnce rt a script timeout"
  show ?case
  proof (cases "attempt \<le>s MaxRetries cfg")
    case False
    with Cons.prems show ?thesis
      by (auto simp: retry_loop_exhausted exhausted_result_def classified_def)
  next
    case le: True
    show ?thesis
    proof (cases "0 <s attempt \<and> wait_ctx a \<noteq> None")
      case True
      then obtain ce where "0 <s attempt" "wait_ctx a = Some ce" by auto
      from retry_loop_wait_cancelled [OF le this, of rt script timeout fin lastErr made env]
        Cons.prems
      have r: "r = \<lparr>Output = [],
            Error = Some (Domain (NewDomainErrorWithCause ErrTimeout
                      ''context cancelled during retry'' (Some (ContextError ce)))),
            Duration = since_start a, RetryCount = attempt\<rparr>"
        by simp
      show ?thesis by (simp add: r classified_def)
    next
      case nw: False
      note step = retry_loop_attempt [OF le nw, of rt script timeout fin lastErr made env]
      show ?thesis
      proof (cases "Error ?once")
        case None
        with step Cons.prems
        have r: "r = ?once\<lparr>RetryCount := attempt, Duration := since_start a\<rparr>" by simp
        from executeOnce_success [OF None] executeOnce_classified [of rt a script timeout]
        show ?thesis by (auto simp: r classified_updates)
      next
        case (Some e)
        show ?thesis
        proof (cases "IsPermanent e")
          case True
          with step Some Cons.prems
          have r: "r = ?once\<lparr>RetryCount := attempt, Duration := since_start a\<rparr>" by simp
          from Some executeOnce_classified [of rt a script timeout]
          show ?thesis by (simp add: r classified_updates)
        next
          case np: False
          show ?thesis
          proof (cases "ctx_err_after a")
            case (Some ce)
            with step \<open>Error ?once = Some e\<close> np Cons.prems
            have r: "r = ?once\<lparr>RetryCount := attempt,
                Error := Some (Domain (NewDomainErrorWithCause ErrTimeout
                                        ''context cancelled'' (Some (ContextError ce)))),
                Duration := since_start a\<rparr>" by simp
            show ?thesis by (simp add: r classified_def)
          next
            case None
            with step \<open>Error ?once = Some e\<close> np Cons.prems
            have "retry_loop rt cfg script timeout fin (attempt + 1) (Some e) (Suc made) env
                    = Some (r, m)"
              by simp
            from Cons.IH [OF this] show ?thesis by auto
          qed
        qed
      qed
    qed
  qed
qed

lemma ExecuteWithTimeout_shape:
  assumes run: "ExecuteWithTimeout rt cfg w script timeout = Some (r, made)"
  shows "classified r \<and>
      (Error r = None \<longrightarrow>
         (\<exists>a \<in> set (attempts w). \<exists>out errout.
             proc a = Waited out errout None \<and> Output r = TrimSpace out)) \<and>
      (TrimSpace script = [] \<longrightarrow> Error r \<noteq> None \<and> Duration r = 0 \<and> made = 0) \<and>
      (TrimSpace script \<noteq> [] \<longrightarrow> Duration r \<in> set (clock_readings w))"
proof (cases "TrimSpace script = []")
  case True
  with run show ?thesis
    by (auto simp: ExecuteWithTimeout_def classified_def)
next
  case False
  with run have "retry_loop rt cfg (TrimSpace script) timeout (final_since w) 0 None 0 (attempts w)
      = Some (r, made)"
    by (simp add: ExecuteWithTimeout_def Let_def)
  from retry_loop_shape [OF this] False show ?thesis
    by (simp add: clock_readings_def)
qed

text \<open>
  Claim C7, as the code has it. Every result that \<open>ExecuteWithTimeout\<close>, \<open>Execute\<close> or
  \<open>ExecuteTemplate\<close> returns carries either no error, and then the trimmed standard output
  of an attempt whose process ended cleanly, or a domain error. When the script passes
  validation, \<open>Duration\<close> is a reading of \<open>time.Since(startTime)\<close>. When the call is
  rejected before any attempt (the script is empty after trimming, or the template cannot
  be loaded), \<open>Duration\<close> is left at 0. \<open>Execute\<close> is \<open>ExecuteWithTimeout\<close> at the default
  timeout, and \<open>ExecuteTemplate\<close> on a template that loads is \<open>Execute\<close> on the substituted
  script.
\<close>

theorem terminal_result_shape:
  "(ExecuteWithTimeout rt cfg w script timeout = Some (r, made) \<longrightarrow>
      classified r \<and>
      (Error r = None \<longrightarrow>
         (\<exists>a \<in> set (attempts w). \<exists>out errout.
             proc a = Waited out errout None \<and> Output r = TrimSpace out)) \<and>
      (TrimSpace script = [] \<longrightarrow> Error r \<noteq> None \<and> Duration r = 0 \<and> made = 0) \<and>
      (TrimSpace script \<noteq> [] \<longrightarrow> Duration r \<in> set (clock_readings w))) \<and>
   Execute rt cfg w script = ExecuteWithTimeout rt cfg w script (DefaultTimeout cfg) \<and>
   (ExecuteTemplate rt cfg w lo params = Some (r', made') \<longrightarrow>
      classified r' \<and>
      (Duration r' = 0 \<or> Duration r' \<in> set (clock_readings w)) \<and>
      (isl (LoadScript lo) \<longrightarrow> Error r' \<noteq> None \<and> Duration r' = 0 \<and> made' = 0) \<and>
      (Error r' = None \<longrightarrow>
         (\<exists>a \<in> set (attempts w). \<exists>out errout.
             proc a = Waited out errout None \<and> Output r' = TrimSpace out)) \<and>
      (LoadScript lo = Inr content \<and> TrimSpace (substitute content params) = [] \<longrightarrow>
         Error r' \<noteq> None \<and> Duration r' = 0 \<and> made' = 0) \<and>
      (LoadScript lo = Inr content \<and> TrimSpace (substitute content params) \<noteq> [] \<longrightarrow>
         Duration r' \<in> set (clock_readings w))) \<and>
   (LoadScript lo = Inr content \<longrightarrow>
      ExecuteTemplate rt cfg w lo params =
        ExecuteWithTimeout rt cfg w (substitute content params) (DefaultTimeout cfg))"
proof -
  note a = ExecuteWithTimeout_shape
  have c: "ExecuteTemplate rt cfg w lo params =
        ExecuteWithTimeout rt cfg w (substitute content params) (DefaultTimeout cfg)"
    if "LoadScript lo = Inr content" for content
    using that by (simp add: ExecuteTemplate_def Execute_def)
  have b: "classified r' \<and>
      (Duration r' = 0 \<or> Duration r' \<in> set (clock_readings w)) \<and>
      (isl (LoadScript lo) \<longrightarrow> Error r' \<noteq> None \<and> Duration r' = 0 \<and> made' = 0) \<and>
      (Error r' = None \<longrightarrow>
         (\<exists>a \<in> set (attempts w). \<exists>out errout.
             proc a = Waited out errout None \<and> Output r' = TrimSpace out)) \<and>
      (LoadScript lo = Inr content \<and> TrimSpace (substitute content params) = [] \<longrightarrow>
         Error r' \<noteq> None \<and> Duration r' = 0 \<and> made' = 0) \<and>
      (LoadScript lo = Inr content \<and> TrimSpace (substitute content params) \<noteq> [] \<longrightarrow>
         Duration r' \<in> set (clock_readings w))"
    if run: "ExecuteTemplate rt cfg w lo params = Some (r', made')"
  proof (cases "LoadScript lo")
    case (Inl err)
    with run show ?thesis
      by (auto simp: ExecuteTemplate_def classified_def)
  next
    case (Inr loaded)
    with run c [OF Inr]
    have "ExecuteWithTimeout rt cfg w (substitute loaded params) (DefaultTimeout cfg)
        = Some (r', made')"
      by simp
    from a [OF this] Inr show ?thesis by auto
  qed
  have d: "ExecuteWithTimeout rt cfg w script timeout = Some (r, made) \<longrightarrow>
      classified r \<and>
      (Error r = None \<longrightarrow>
         (\<exists>a \<in> set (attempts w). \<exists>out errout.
             proc a = Waited out errout None \<and> Output r = TrimSpace out)) \<and>
      (TrimSpace script = [] \<longrightarrow> Error r \<noteq> None \<and> Duration r = 0 \<and> made = 0) \<and>
      (TrimSpace script \<noteq> [] \<longrightarrow> Duration r \<in> set (clock_readings w))"
    using a by blast
  have e: "Execute rt cfg w script = ExecuteWithTimeout rt cfg w script (DefaultTimeout cfg)"
    by (simp add: Execute_def)
  from b c d e show ?thesis by blast
qed

lemma sample_run:
  "ExecuteWithTimeout example_runtime DefaultExecutorConfig
     \<lparr>attempts = [exited 0 ''ok'' []], final_since = 3000\<rparr> ''beep'' timeout =
   Some (\<lparr>Output = ''ok'', Error = None, Duration = 2000, RetryCount = 0\<rparr>, 1)"
proof -
  have le: "(0 :: go_int) \<le>s MaxRetries DefaultExecutorConfig"
    by (simp add: DefaultExecutorConfig_def word_sle_eq)
  have w: "wait_ctx (exited 0 ''ok'' []) = None" "since_start (exited 0 ''ok'' []) = 2000"
    by (simp_all add: exited_def)
  have e: "Error (executeOnce example_runtime (exited 0 ''ok'' []) ''beep'' timeout) = None"
    by (simp add: sample_success)
  show ?thesis
    by (simp add: ExecuteWithTimeout_def TrimSpace_beep retry_loop_success [OF le w(1) e]
        sample_success w(2))
qed

lemma sample_template_run:
  "ExecuteTemplate example_runtime DefaultExecutorConfig
     \<lparr>attempts = [exited 0 ''ok'' []], final_since = 3000\<rparr>
     (Loaded ''be{{x}}'') [(''x'', ''ep'')] =
   Some (\<lparr>Output = ''ok'', Error = None, Duration = 2000, RetryCount = 0\<rparr>, 1)"
proof -
  have s: "substitute ''be{{x}}'' [(''x'', ''ep'')] = ''beep''" by code_simp
  show ?thesis
    by (simp add: ExecuteTemplate_def Execute_def LoadScript_def s sample_run)
qed

theorem terminal_result_shape_witness:
  "classified \<lparr>Output = ''ok'', Error = None, Duration = 2000, RetryCount = 0\<rparr> \<and>
   (2000 :: go_int) \<in> set (clock_readings \<lparr>attempts = [exited 0 ''ok'' []], final_since = 3000\<rparr>) \<and>
   ExecuteTemplate example_runtime DefaultExecutorConfig
     \<lparr>attempts = [exited 0 ''ok'' []], final_since = 3000\<rparr>
     (Loaded ''be{{x}}'') [(''x'', ''ep'')] =
   ExecuteWithTimeout example_runtime DefaultExecutorConfig
     \<lparr>attempts = [exited 0 ''ok'' []], final_since = 3000\<rparr>
     (substitute ''be{{x}}'' [(''x'', ''ep'')]) (DefaultTimeout DefaultExecutorConfig)"
proof -
  have l: "LoadScript (Loaded ''be{{x}}'') = Inr ''be{{x}}''"
    by (simp add: LoadScript_def)
  show ?thesis
    using terminal_result_shape [of example_runtime DefaultExecutorConfig
        "\<lparr>attempts = [exited 0 ''ok'' []], final_since = 3000\<rparr>" "''beep''" 5000000000
        "\<lparr>Output = ''ok'', Error = None, Duration = 2000, RetryCount = 0\<rparr>" 1
        "Loaded ''be{{x}}''" "[(''x'', ''ep'')]"
        "\<lparr>Output = ''ok'', Error = None, Duration = 2000, RetryCount = 0\<rparr>" 1 "''be{{x}}''"]
      sample_run [of 5000000000] sample_template_run l
    by (simp add: TrimSpace_beep)
qed

text \<open>
  Claim C7 as stated fails on the validation path: for a script of spaces the result has
  \<open>Duration\<close> 0, which is none of the clock readings of the call.
\<close>

theorem rejected_script_has_no_duration:
  "ExecuteWithTimeout example_runtime DefaultExecutorConfig
     \<lparr>attempts = [exited 0 ''ok'' []], final_since = 3000\<rparr> ''  '' 5000000000 =
   Some (\<lparr>Output = [],
          Error = Some (Domain (DomainError ErrInvalidOperation ''AppleScript cannot be empty''
                                  None Map.empty)),
          Duration = 0, RetryCount = 0\<rparr>, 0) \<and>
   clock_readings \<lparr>attempts = [exited 0 ''ok'' []], final_since = 3000\<rparr> = [3000, 2000]"
proof -
  have "TrimSpace ''  '' = []" by code_simp
  then show ?thesis
    by (simp add: ExecuteWithTimeout_def NewDomainError_def clock_readings_def exited_def)
qed

text \<open>
  The model returns a result as soon as the environment answers more attempts than
  \<open>MaxRetries\<close>, for every configuration in which the loop counter cannot overflow.
\<close>

lemma sint_succ_below_max:
  assumes "sint (k :: go_int) < 2 ^ 63 - 1"
  shows "sint (k + 1) = sint k + 1"
proof -
  have "- (2 ^ 63) \<le> sint k" using sint_ge [of k] by simp
  with assms show ?thesis
    by (simp add: sint_word_ariths signed_take_bit_int_eq_self)
qed

lemma retry_loop_returns:
  assumes "sint (MaxRetries cfg) < 2 ^ 63 - 1"
    and "sint (MaxRetries cfg) - sint attempt < int (length env)"
  shows "\<exists>res. retry_loop rt cfg script timeout fin attempt lastErr made env = Some res"
  using assms(2)
proof (induction env arbitrary: attempt lastErr made)
  case Nil
  then have "\<not> attempt \<le>s MaxRetries cfg" by (simp add: word_sle_eq)
  then show ?case by (simp add: retry_loop_exhausted)
next
  case (Cons a env)
  show ?case
  proof (cases "attempt \<le>s MaxRetries cfg")
    case False
    then show ?thesis by (simp add: retry_loop_exhausted)
  next
    case le: True
    then have "sint attempt < 2 ^ 63 - 1"
      using assms(1) by (simp add: word_sle_eq)
    then have "sint (attempt + 1) = sint attempt + 1" by (rule sint_succ_below_max)
    with Cons.prems have "sint (MaxRetries cfg) - sint (attempt + 1) < int (length env)"
      by simp
    note ih = Cons.IH [OF this]
    show ?thesis
    proof (cases "0 <s attempt \<and> wait_ctx a \<noteq> None")
      case True
      then obtain ce where "0 <s attempt" "wait_ctx a = Some ce" by auto
      then show ?thesis by (simp add: retry_loop_wait_cancelled [OF le])
    next
      case False
      show ?thesis
        using ih by (simp add: retry_loop_attempt [OF le False] split: option.splits)
    qed
  qed
qed

lemma ExecuteWithTimeout_returns:
  assumes "sint (MaxRetries cfg) < 2 ^ 63 - 1"
    and "sint (MaxRetries cfg) < int (length (attempts w))"
  shows "\<exists>res. ExecuteWithTimeout rt cfg w script timeout = Some res"
proof (cases "TrimSpace script = []")
  case True
  then show ?thesis by (simp add: ExecuteWithTimeout_def)
next
  case False
  have "sint (MaxRetries cfg) - sint (0 :: go_int) < int (length (attempts w))"
    using assms(2) by simp
  from retry_loop_returns [OF assms(1) this] False show ?thesis
    by (simp add: ExecuteWithTimeout_def Let_def)
qed

end
